theory Spec2Isabelle
  imports Main "HOL-Library.Sublist"
begin

section \<open>Python values handled by the application\<close>

text \<open>
  The application of \<^verbatim>\<open>src/main.py\<close> lists the models of a local Ollama daemon, fetches
  the configuration of the selected one and shows it as JSON text. The configuration is a
  Python dictionary of heterogeneous values, so the values are a datatype of their own.

  A \<^verbatim>\<open>datetime\<close> is its seven calendar fields and the offset of its \<^verbatim>\<open>tzinfo\<close> from UTC
  in microseconds (\<open>None\<close> for a naive value). Characters are the code points 0 to 255.
  Dictionaries are association lists in insertion order with string keys; a Python
  dictionary has no duplicate keys. Floating-point numbers are outside this model.
  \<open>PyObject c\<close> stands for an instance of any other class \<open>c\<close>, one that \<^verbatim>\<open>json\<close> cannot
  serialise by itself.
\<close>

record datetime =
  dt_year :: nat
  dt_month :: nat
  dt_day :: nat
  dt_hour :: nat
  dt_minute :: nat
  dt_second :: nat
  dt_microsecond :: nat
  dt_utcoffset :: "int option"

datatype pyval =
    PyNone
  | PyBool bool
  | PyInt int
  | PyStr string
  | PyList "pyval list"
  | PyDict "(string \<times> pyval) list"
  | PyDatetime datetime
  | PyObject string

type_synonym pydict = "(string \<times> pyval) list"

text \<open>
  Exceptions: the two the code of the application can raise by itself, and
  \<open>ClientError m\<close> for any exception raised inside the Ollama client library, \<open>m\<close> being
  its \<^verbatim>\<open>str()\<close>.
\<close>

datatype exn = TypeError string | KeyError string | ClientError string

fun str_exn :: "exn \<Rightarrow> string" where
  "str_exn (TypeError m) = m"
| "str_exn (KeyError k) = [CHR 0x27] @ k @ [CHR 0x27]"
| "str_exn (ClientError m) = m"

text \<open>\<^verbatim>\<open>o.__class__.__name__\<close>\<close>

fun class_name :: "pyval \<Rightarrow> string" where
  "class_name PyNone = ''NoneType''"
| "class_name (PyBool b) = ''bool''"
| "class_name (PyInt i) = ''int''"
| "class_name (PyStr s) = ''str''"
| "class_name (PyList xs) = ''list''"
| "class_name (PyDict d) = ''dict''"
| "class_name (PyDatetime t) = ''datetime''"
| "class_name (PyObject c) = c"

text \<open>
  Truth value of an object in a condition. An instance of another class is true unless
  its class defines \<^verbatim>\<open>__bool__\<close> or \<^verbatim>\<open>__len__\<close>, which \<open>PyObject\<close> does not record.
\<close>

fun truthy :: "pyval \<Rightarrow> bool" where
  "truthy PyNone = False"
| "truthy (PyBool b) = b"
| "truthy (PyInt i) = (i \<noteq> 0)"
| "truthy (PyStr s) = (s \<noteq> [])"
| "truthy (PyList xs) = (xs \<noteq> [])"
| "truthy (PyDict d) = (d \<noteq> [])"
| "truthy (PyDatetime t) = True"
| "truthy (PyObject c) = True"

text \<open>\<^verbatim>\<open>d.get(k)\<close>: the value stored under \<open>k\<close>, \<^verbatim>\<open>None\<close> when there is none.\<close>

definition dict_get :: "pydict \<Rightarrow> string \<Rightarrow> pyval" where
  "dict_get d k = (case map_of d k of None \<Rightarrow> PyNone | Some v \<Rightarrow> v)"

text \<open>\<^verbatim>\<open>d[k]\<close>: raises \<^verbatim>\<open>KeyError\<close> when the key is missing.\<close>

definition dict_getitem :: "pydict \<Rightarrow> string \<Rightarrow> exn + pyval" where
  "dict_getitem d k = (case map_of d k of None \<Rightarrow> Inl (KeyError k) | Some v \<Rightarrow> Inr v)"

text \<open>\<^verbatim>\<open>sub in s\<close> on strings: \<open>sub\<close> occurs in \<open>s\<close> as a contiguous run.\<close>

fun py_in :: "string \<Rightarrow> string \<Rightarrow> bool" where
  "py_in sub [] = (sub = [])"
| "py_in sub (c # cs) = (prefix sub (c # cs) \<or> py_in sub cs)"

text \<open>\<^verbatim>\<open>sep.join(xs)\<close>\<close>

fun join :: "string \<Rightarrow> string list \<Rightarrow> string" where
  "join sep [] = []"
| "join sep [x] = x"
| "join sep (x # y # ys) = x @ sep @ join sep (y # ys)"

section \<open>Numbers as text\<close>

definition digit_char :: "nat \<Rightarrow> char" where
  "digit_char d = ''0123456789'' ! d"

fun str_nat :: "nat \<Rightarrow> string" where
  "str_nat n = (if n < 10 then [digit_char n] else str_nat (n div 10) @ [digit_char (n mod 10)])"

declare str_nat.simps [simp del]

text \<open>\<^verbatim>\<open>int.__repr__\<close>, which \<^verbatim>\<open>json\<close> uses for integers.\<close>

definition str_int :: "int \<Rightarrow> string" where
  "str_int i = (if i < 0 then CHR ''-'' # str_nat (nat (- i)) else str_nat (nat i))"

text \<open>\<^verbatim>\<open>"%0wd" % n\<close> for a natural number: padded with zeros on the left to width \<open>w\<close>.\<close>

definition zpad :: "nat \<Rightarrow> nat \<Rightarrow> string" where
  "zpad w n = replicate (w - length (str_nat n)) CHR ''0'' @ str_nat n"

section \<open>\<^verbatim>\<open>datetime.isoformat\<close>\<close>

text \<open>
  The standard library's \<^verbatim>\<open>isoformat()\<close> with its default arguments: date, \<^verbatim>\<open>T\<close>, time,
  the microseconds only when they are not zero, then the UTC offset of an aware value,
  whose seconds and microseconds are printed only when they are not zero.
\<close>

definition format_time :: "datetime \<Rightarrow> string" where
  "format_time t =
     zpad 2 (dt_hour t) @ '':'' @ zpad 2 (dt_minute t) @ '':'' @ zpad 2 (dt_second t)
     @ (if dt_microsecond t \<noteq> 0 then ''.'' @ zpad 6 (dt_microsecond t) else [])"

definition format_offset :: "int option \<Rightarrow> string" where
  "format_offset off =
     (case off of
        None \<Rightarrow> []
      | Some d \<Rightarrow>
          (let sign = (if d < 0 then ''-'' else ''+'');
               a = nat \<bar>d\<bar>;
               hh = a div 3600000000;
               r = a mod 3600000000;
               mm = r div 60000000;
               ss = r mod 60000000
           in sign @ zpad 2 hh @ '':'' @ zpad 2 mm
              @ (if ss \<noteq> 0
                 then '':'' @ zpad 2 (ss div 1000000)
                      @ (if ss mod 1000000 \<noteq> 0 then ''.'' @ zpad 6 (ss mod 1000000) else [])
                 else [])))"

definition isoformat :: "datetime \<Rightarrow> string" where
  "isoformat t =
     zpad 4 (dt_year t) @ ''-'' @ zpad 2 (dt_month t) @ ''-'' @ zpad 2 (dt_day t) @ ''T''
     @ format_time t @ format_offset (dt_utcoffset t)"

section \<open>JSON text\<close>

text \<open>
  \<^verbatim>\<open>json.dumps\<close> runs with \<^verbatim>\<open>ensure_ascii\<close> on: inside a string, the quote, the backslash
  and every character outside the printable ASCII range from space to tilde are escaped,
  the control characters with a short form by it, the others as \<^verbatim>\<open>\uXXXX\<close>.
\<close>

definition hex_char :: "nat \<Rightarrow> char" where
  "hex_char d = ''0123456789abcdef'' ! d"

definition hex4 :: "nat \<Rightarrow> string" where
  "hex4 n = [hex_char (n div 4096 mod 16), hex_char (n div 256 mod 16),
             hex_char (n div 16 mod 16), hex_char (n mod 16)]"

definition escape_char :: "char \<Rightarrow> string" where
  "escape_char c =
     (if c = CHR 0x5C then [CHR 0x5C, CHR 0x5C]
      else if c = CHR 0x22 then [CHR 0x5C, CHR 0x22]
      else if c = CHR 0x08 then [CHR 0x5C, CHR ''b'']
      else if c = CHR 0x0C then [CHR 0x5C, CHR ''f'']
      else if c = CHR 0x0A then [CHR 0x5C, CHR ''n'']
      else if c = CHR 0x0D then [CHR 0x5C, CHR ''r'']
      else if c = CHR 0x09 then [CHR 0x5C, CHR ''t'']
      else if (of_char c :: nat) < 32 \<or> 126 < (of_char c :: nat)
           then [CHR 0x5C, CHR ''u''] @ hex4 (of_char c)
      else [c])"

definition encode_basestring_ascii :: "string \<Rightarrow> string" where
  "encode_basestring_ascii s = [CHR 0x22] @ concat (map escape_char s) @ [CHR 0x22]"

section \<open>The presentation formatter\<close>

text \<open>
  \<^verbatim>\<open>datetime_converter\<close> is the hook \<^verbatim>\<open>json\<close> calls on a value it cannot serialise: a
  \<^verbatim>\<open>datetime\<close> becomes its ISO text, anything else raises \<^verbatim>\<open>TypeError\<close> naming the class.
\<close>

fun datetime_converter :: "pyval \<Rightarrow> exn + pyval" where
  "datetime_converter (PyDatetime t) = Inr (PyStr (isoformat t))"
| "datetime_converter v =
     Inl (TypeError (''Object of type '' @ class_name v @ '' is not JSON serializable''))"

text \<open>\<^verbatim>\<open>'\n' + indent * level\<close> with the indent of two spaces.\<close>

definition newline_indent :: "nat \<Rightarrow> string" where
  "newline_indent lvl = CHR 0x0A # concat (replicate lvl ''  '')"

text \<open>Whether \<^verbatim>\<open>json\<close> hands a value to the hook: 1 if so, 0 for a value of a JSON type.\<close>

fun via_hook :: "pyval \<Rightarrow> nat" where
  "via_hook (PyDatetime t) = 1"
| "via_hook (PyObject c) = 1"
| "via_hook v = 0"

text \<open>
  The encoder of \<^verbatim>\<open>json.dumps(obj, indent=2, default=datetime_converter)\<close> at nesting
  level \<open>lvl\<close>. An empty container is \<^verbatim>\<open>[]\<close> or \<^verbatim>\<open>{}\<close>; the items of another one stand
  each on a line of its own, one level deeper, separated by commas, a key and its value by
  a colon and a space. A value of no JSON type goes through the hook, and what the hook
  returns is encoded in its place. The first exception ends the encoding.
\<close>

function (sequential)
  iterencode :: "nat \<Rightarrow> pyval \<Rightarrow> exn + string" and
  iterencode_list :: "nat \<Rightarrow> pyval list \<Rightarrow> exn + string list" and
  iterencode_dict :: "nat \<Rightarrow> pydict \<Rightarrow> exn + string list"
where
  "iterencode lvl PyNone = Inr ''null''"
| "iterencode lvl (PyBool b) = Inr (if b then ''true'' else ''false'')"
| "iterencode lvl (PyInt i) = Inr (str_int i)"
| "iterencode lvl (PyStr s) = Inr (encode_basestring_ascii s)"
| "iterencode lvl (PyList xs) =
     (if xs = [] then Inr ''[]''
      else case iterencode_list (lvl + 1) xs of
             Inl e \<Rightarrow> Inl e
           | Inr chunks \<Rightarrow>
               Inr (''['' @ newline_indent (lvl + 1)
                    @ join ('','' @ newline_indent (lvl + 1)) chunks
                    @ newline_indent lvl @ '']''))"
| "iterencode lvl (PyDict d) =
     (if d = [] then Inr ''{}''
      else case iterencode_dict (lvl + 1) d of
             Inl e \<Rightarrow> Inl e
           | Inr chunks \<Rightarrow>
               Inr (''{'' @ newline_indent (lvl + 1)
                    @ join ('','' @ newline_indent (lvl + 1)) chunks
                    @ newline_indent lvl @ ''}''))"
| "iterencode lvl v =
     (case datetime_converter v of
        Inl e \<Rightarrow> Inl e
      | Inr v' \<Rightarrow> iterencode lvl v')"
| "iterencode_list lvl [] = Inr []"
| "iterencode_list lvl (x # xs) =
     (case iterencode lvl x of
        Inl e \<Rightarrow> Inl e
      | Inr chunk \<Rightarrow>
          (case iterencode_list lvl xs of
             Inl e \<Rightarrow> Inl e
           | Inr chunks \<Rightarrow> Inr (chunk # chunks)))"
| "iterencode_dict lvl [] = Inr []"
| "iterencode_dict lvl ((k, v) # kvs) =
     (case iterencode lvl v of
        Inl e \<Rightarrow> Inl e
      | Inr chunk \<Rightarrow>
          (case iterencode_dict lvl kvs of
             Inl e \<Rightarrow> Inl e
           | Inr chunks \<Rightarrow> Inr ((encode_basestring_ascii k @ '': '' @ chunk) # chunks)))"
  by pat_completeness auto

text \<open>
  The encoder stops: every call descends into a container, except the one on the hook's
  result, and the hook returns a string, which needs no hook again.
\<close>

termination iterencode
proof (relation "measure (\<lambda>a. case a of
          Inl (lvl, v) \<Rightarrow> 2 * size v + via_hook v
        | Inr (Inl (lvl, xs)) \<Rightarrow> 2 * size_list size xs + 1
        | Inr (Inr (lvl, kvs)) \<Rightarrow> 2 * size_list (size_prod (\<lambda>_. 0) size) kvs + 1)",
       goal_cases)
  case 1
  show ?case by simp
next
  case (2 lvl xs)
  show ?case by simp
next
  case (3 lvl d)
  show ?case by simp
next
  case (4 lvl t v')
  then show ?case by auto
next
  case (5 lvl c v')
  then show ?case by simp
next
  case (6 lvl x xs)
  show ?case by (cases x) simp_all
next
  case (7 lvl x xs chunk)
  show ?case by simp
next
  case (8 lvl k v kvs)
  show ?case by (cases v) simp_all
next
  case (9 lvl k v kvs chunk)
  show ?case by simp
qed

text \<open>
  \<^verbatim>\<open>format_model_config\<close>: the configuration dictionary as JSON text, or the exception of
  the hook.
\<close>

definition format_model_config :: "pydict \<Rightarrow> exn + string" where
  "format_model_config config_dict = iterencode 0 (PyDict config_dict)"

section \<open>The daemon client\<close>

text \<open>
  The daemon is outside the program. A call of the client library either raises or
  returns: \<^verbatim>\<open>ollama.list()\<close> a response whose entry \<^verbatim>\<open>models\<close>, when it has one, is a
  sequence of model descriptors, and \<^verbatim>\<open>ollama.show(name).model_dump()\<close> the configuration
  dictionary of the model. What the program does to the outside is recorded as a list of
  effects, in the order they happen.
\<close>

type_synonym list_response = "pydict list option"

datatype effect =
    OllamaList
  | OllamaShow string
  | Print string
  | NotificationShow string string

definition sentinel :: string where
  "sentinel = ''Error: Could not connect to Ollama. Is it running?''"

text \<open>The comprehension \<^verbatim>\<open>[model['model'] for model in ...]\<close>, ended by the first exception.\<close>

fun model_names :: "pydict list \<Rightarrow> exn + pyval list" where
  "model_names [] = Inr []"
| "model_names (model # models) =
     (case dict_getitem model ''model'' of
        Inl e \<Rightarrow> Inl e
      | Inr name \<Rightarrow>
          (case model_names models of
             Inl e \<Rightarrow> Inl e
           | Inr names \<Rightarrow> Inr (name # names)))"

text \<open>The body of the \<^verbatim>\<open>try\<close> in \<^verbatim>\<open>get_available_models\<close>.\<close>

definition list_models :: "exn + list_response \<Rightarrow> exn + pyval list" where
  "list_models reply =
     (case reply of
        Inl e \<Rightarrow> Inl e
      | Inr response \<Rightarrow> model_names (case response of None \<Rightarrow> [] | Some models \<Rightarrow> models))"

definition get_available_models :: "exn + list_response \<Rightarrow> pyval list \<times> effect list" where
  "get_available_models reply =
     (case list_models reply of
        Inr names \<Rightarrow> (names, [OllamaList])
      | Inl e \<Rightarrow>
          ([PyStr sentinel],
           [OllamaList, Print (''Error connecting to Ollama: '' @ str_exn e)]))"

text \<open>
  \<^verbatim>\<open>get_model_config\<close>: the dictionary and its entry \<^verbatim>\<open>system\<close>, or \<^verbatim>\<open>(None, None)\<close> when
  the call raised.
\<close>

definition get_model_config ::
  "(string \<Rightarrow> exn + pydict) \<Rightarrow> string \<Rightarrow> (pydict option \<times> pyval) \<times> effect list" where
  "get_model_config ollama_show model_name =
     (case ollama_show model_name of
        Inr config_dict \<Rightarrow>
          ((Some config_dict, dict_get config_dict ''system''), [OllamaShow model_name])
      | Inl e \<Rightarrow>
          ((None, PyNone),
           [OllamaShow model_name,
            Print (''Error getting config for '' @ model_name @ '': '' @ str_exn e)]))"

section \<open>The session controller\<close>

text \<open>
  The three reactive values of a session. A reactive value holds any Python object; the
  handler stores strings in the first two and the entry \<^verbatim>\<open>system\<close> of the configuration,
  whatever it is, in the third.
\<close>

record session =
  model_to_display :: pyval
  model_config :: pyval
  system_prompt :: pyval

definition initial :: session where
  "initial =
     \<lparr>model_to_display = PyStr ''No model submitted yet.'',
      model_config = PyStr ''Model config will be shown here after submission.'',
      system_prompt = PyStr ''No system prompt configured''\<rparr>"

definition connect_error :: string where
  "connect_error = ''Error: Could not connect to Ollama.''"

definition submitted_label :: "string \<Rightarrow> string" where
  "submitted_label selected_model = ''You submitted model: '' @ selected_model"

definition config_error :: "string \<Rightarrow> string" where
  "config_error selected_model = ''Error getting config for '' @ selected_model"

text \<open>
  The handler of the submit button, run on the selected identifier in a session. It
  returns the session after it, the effects in order, and the exception that ended it, if
  one did. An exception of the formatter is not caught in the handler: the writes before
  it stay, those after it do not happen.
\<close>

definition submit_model ::
  "(string \<Rightarrow> exn + pydict) \<Rightarrow> string \<Rightarrow> session \<Rightarrow> session \<times> effect list \<times> exn option" where
  "submit_model ollama_show selected_model s =
     (if py_in ''Error'' selected_model then
        (s\<lparr>model_to_display := PyStr connect_error,
           model_config := PyStr connect_error,
           system_prompt := PyStr connect_error\<rparr>,
         [NotificationShow ''Ollama is not running or is not accessible'' ''error''],
         None)
      else
        (let s1 = s\<lparr>model_to_display := PyStr (submitted_label selected_model)\<rparr>;
             ((config_dict, extracted_system_prompt), fx) =
               get_model_config ollama_show selected_model
         in case config_dict of
              None \<Rightarrow>
                (s1\<lparr>model_config := PyStr (config_error selected_model),
                    system_prompt := PyStr (config_error selected_model)\<rparr>,
                 fx @ [NotificationShow (config_error selected_model) ''error''],
                 None)
            | Some d \<Rightarrow>
                (case format_model_config d of
                   Inl e \<Rightarrow> (s1, fx, Some e)
                 | Inr text \<Rightarrow>
                     (s1\<lparr>model_config := PyStr text,
                         system_prompt :=
                           (if truthy extracted_system_prompt then extracted_system_prompt
                            else PyStr ''No system prompt configured'')\<rparr>,
                      fx, None))))"

text \<open>Projections of a run of the handler.\<close>

definition session_after :: "session \<times> effect list \<times> exn option \<Rightarrow> session" where
  "session_after run = fst run"

definition effects_of :: "session \<times> effect list \<times> exn option \<Rightarrow> effect list" where
  "effects_of run = fst (snd run)"

definition raised :: "session \<times> effect list \<times> exn option \<Rightarrow> exn option" where
  "raised run = snd (snd run)"

fun is_notification :: "effect \<Rightarrow> bool" where
  "is_notification (NotificationShow msg kind) = True"
| "is_notification e = False"

fun is_fetch :: "effect \<Rightarrow> bool" where
  "is_fetch (OllamaShow name) = True"
| "is_fetch e = False"

definition notifications :: "effect list \<Rightarrow> effect list" where
  "notifications fx = filter is_notification fx"

definition fetches :: "effect list \<Rightarrow> effect list" where
  "fetches fx = filter is_fetch fx"

section \<open>Properties of configuration records\<close>

text \<open>
  A value is serialisable when no instance of a class unknown to \<^verbatim>\<open>json\<close> and to the
  hook occurs in it, at any depth.
\<close>

fun serializable :: "pyval \<Rightarrow> bool"
  and serializable_list :: "pyval list \<Rightarrow> bool"
  and serializable_dict :: "pydict \<Rightarrow> bool" where
  "serializable (PyObject c) = False"
| "serializable (PyList xs) = serializable_list xs"
| "serializable (PyDict d) = serializable_dict d"
| "serializable v = True"
| "serializable_list [] = True"
| "serializable_list (x # xs) = (serializable x \<and> serializable_list xs)"
| "serializable_dict [] = True"
| "serializable_dict ((k, v) # kvs) = (serializable v \<and> serializable_dict kvs)"

text \<open>The timestamp \<open>T\<close> occurs in a value, at any depth.\<close>

fun contains_datetime :: "datetime \<Rightarrow> pyval \<Rightarrow> bool"
  and contains_datetime_list :: "datetime \<Rightarrow> pyval list \<Rightarrow> bool"
  and contains_datetime_dict :: "datetime \<Rightarrow> pydict \<Rightarrow> bool" where
  "contains_datetime T (PyDatetime t) = (t = T)"
| "contains_datetime T (PyList xs) = contains_datetime_list T xs"
| "contains_datetime T (PyDict d) = contains_datetime_dict T d"
| "contains_datetime T v = False"
| "contains_datetime_list T [] = False"
| "contains_datetime_list T (x # xs) = (contains_datetime T x \<or> contains_datetime_list T xs)"
| "contains_datetime_dict T [] = False"
| "contains_datetime_dict T ((k, v) # kvs) = (contains_datetime T v \<or> contains_datetime_dict T kvs)"

text \<open>A value with every timestamp in it replaced by its ISO text, a string.\<close>

fun timestamps_as_text :: "pyval \<Rightarrow> pyval"
  and timestamps_as_text_list :: "pyval list \<Rightarrow> pyval list"
  and timestamps_as_text_dict :: "pydict \<Rightarrow> pydict" where
  "timestamps_as_text (PyDatetime t) = PyStr (isoformat t)"
| "timestamps_as_text (PyList xs) = PyList (timestamps_as_text_list xs)"
| "timestamps_as_text (PyDict d) = PyDict (timestamps_as_text_dict d)"
| "timestamps_as_text v = v"
| "timestamps_as_text_list [] = []"
| "timestamps_as_text_list (x # xs) = timestamps_as_text x # timestamps_as_text_list xs"
| "timestamps_as_text_dict [] = []"
| "timestamps_as_text_dict ((k, v) # kvs) = (k, timestamps_as_text v) # timestamps_as_text_dict kvs"

text \<open>The characters \<^verbatim>\<open>isoformat\<close> writes.\<close>

definition iso_chars :: "char set" where
  "iso_chars = set ''0123456789-T:.+''"

text \<open>A timestamp for the examples: 7 March 2024, 09:05:00.000123, at UTC-05:30.\<close>

definition example_time :: datetime where
  "example_time =
     \<lparr>dt_year = 2024, dt_month = 3, dt_day = 7, dt_hour = 9, dt_minute = 5, dt_second = 0,
      dt_microsecond = 123, dt_utcoffset = Some (- 19800000000)\<rparr>"

section \<open>Example daemons\<close>

text \<open>A daemon that cannot be reached: every call of the client raises.\<close>

definition daemon_down :: "string \<Rightarrow> exn + pydict" where
  "daemon_down name = Inl (ClientError ''connection refused'')"

text \<open>
  A daemon with four installed models. The configuration of \<^verbatim>\<open>mistral\<close> holds a value
  that \<^verbatim>\<open>json\<close> cannot serialise, \<^verbatim>\<open>phi3\<close> has an empty system prompt, and the name of
  \<^verbatim>\<open>ErrorFixer\<close> contains the word the handler looks for.
\<close>

definition four_models :: "string \<Rightarrow> exn + pydict" where
  "four_models name =
     (if name = ''llama3'' then Inr [(''system'', PyStr ''You are helpful.'')]
      else if name = ''mistral'' then
        Inr [(''system'', PyStr ''Be brief.''), (''adapter'', PyObject ''PosixPath'')]
      else if name = ''phi3'' then Inr [(''system'', PyStr [])]
      else if name = ''ErrorFixer'' then Inr [(''system'', PyStr ''Fix errors.'')]
      else Inl (ClientError ''model not found''))"

section \<open>Auxiliary facts\<close>

lemma py_in_iff_sublist: "py_in sub s \<longleftrightarrow> sublist sub s"
  by (induction s) (simp_all add: sublist_Cons_right)

lemma digit_char_in: "d < 10 \<Longrightarrow> digit_char d \<in> set ''0123456789''"
  unfolding digit_char_def by (rule nth_mem) simp

lemma str_nat_digits: "set (str_nat n) \<subseteq> set ''0123456789''"
proof (induction n rule: str_nat.induct)
  fix n :: nat
  assume IH: "\<not> n < 10 \<Longrightarrow> set (str_nat (n div 10)) \<subseteq> set ''0123456789''"
  have unit: "digit_char (n mod 10) \<in> set ''0123456789''"
    by (rule digit_char_in) simp
  have small: "n < 10 \<Longrightarrow> digit_char n \<in> set ''0123456789''"
    by (rule digit_char_in)
  have "set (if n < 10 then [digit_char n] else str_nat (n div 10) @ [digit_char (n mod 10)])
          \<subseteq> set ''0123456789''"
    using IH unit small by (cases "n < 10") simp_all
  then show "set (str_nat n) \<subseteq> set ''0123456789''"
    by (subst str_nat.simps)
qed

lemma zpad_iso_chars: "set (zpad w n) \<subseteq> iso_chars"
proof -
  have "set ''0123456789'' \<subseteq> iso_chars"
    by (simp add: iso_chars_def)
  with str_nat_digits [of n] have "set (str_nat n) \<subseteq> iso_chars"
    by blast
  moreover have "CHR ''0'' \<in> iso_chars"
    by (simp add: iso_chars_def)
  ultimately show ?thesis
    by (auto simp: zpad_def)
qed

lemma format_time_iso_chars: "set (format_time t) \<subseteq> iso_chars"
proof -
  have "CHR '':'' \<in> iso_chars" "CHR ''.'' \<in> iso_chars"
    by (simp_all add: iso_chars_def)
  then show ?thesis
    using zpad_iso_chars by (auto simp: format_time_def)
qed

lemma format_offset_iso_chars: "set (format_offset off) \<subseteq> iso_chars"
proof (cases off)
  case None
  then show ?thesis by (simp add: format_offset_def)
next
  case (Some d)
  have "CHR '':'' \<in> iso_chars" "CHR ''.'' \<in> iso_chars" "CHR ''-'' \<in> iso_chars"
    "CHR ''+'' \<in> iso_chars"
    by (simp_all add: iso_chars_def)
  with Some show ?thesis
    using zpad_iso_chars by (auto simp: format_offset_def Let_def)
qed

lemma isoformat_iso_chars: "set (isoformat t) \<subseteq> iso_chars"
proof -
  have "CHR ''-'' \<in> iso_chars" "CHR ''T'' \<in> iso_chars"
    by (simp_all add: iso_chars_def)
  then show ?thesis
    using zpad_iso_chars format_time_iso_chars format_offset_iso_chars
    by (auto simp: isoformat_def)
qed

lemma escape_char_iso: "c \<in> iso_chars \<Longrightarrow> escape_char c = [c]"
  by (auto simp: iso_chars_def escape_char_def)

lemma concat_escape_id: "\<forall>c \<in> set s. escape_char c = [c] \<Longrightarrow> concat (map escape_char s) = s"
  by (induction s) simp_all

lemma encode_isoformat:
  "encode_basestring_ascii (isoformat t) = [CHR 0x22] @ isoformat t @ [CHR 0x22]"
proof -
  have "\<forall>c \<in> set (isoformat t). escape_char c = [c]"
    using isoformat_iso_chars [of t] escape_char_iso by blast
  then show ?thesis
    by (simp add: encode_basestring_ascii_def concat_escape_id)
qed

lemma replicate_three: "replicate 3 c = [c, c, c]"
  by (simp add: numeral_3_eq_3)

lemma sublist_inside: "sublist q c \<Longrightarrow> sublist q (l @ c @ r)"
proof -
  assume "sublist q c"
  then obtain ps ss where "c = ps @ q @ ss"
    by (auto simp: sublist_def)
  then have "l @ c @ r = (l @ ps) @ q @ (ss @ r)"
    by simp
  then show ?thesis
    unfolding sublist_def by blast
qed

lemma sublist_join: "c \<in> set chunks \<Longrightarrow> sublist c (join sep chunks)"
proof (induction sep chunks rule: join.induct)
  case (1 sep)
  then show ?case by simp
next
  case (2 sep x)
  then show ?case by simp
next
  case (3 sep x y ys)
  show ?case
  proof (cases "c = x")
    case True
    then show ?thesis by simp
  next
    case False
    with 3 have "sublist c (join sep (y # ys))" by simp
    then have "sublist c ((x @ sep) @ join sep (y # ys) @ [])"
      by (rule sublist_inside)
    then show ?thesis by simp
  qed
qed

lemma sublist_in_container:
  assumes "c \<in> set chunks" and "sublist q c"
  shows "sublist q (opn @ ind @ join sep chunks @ cls)"
proof -
  from assms(1) have "sublist c (join sep chunks)"
    by (rule sublist_join)
  then obtain l r where "join sep chunks = l @ c @ r"
    by (auto simp: sublist_def)
  then have "opn @ ind @ join sep chunks @ cls = (opn @ ind @ l) @ c @ (r @ cls)"
    by simp
  with sublist_inside [OF assms(2), of "opn @ ind @ l" "r @ cls"] show ?thesis
    by simp
qed

lemma timestamp_in_output:
  "contains_datetime T v \<Longrightarrow> iterencode lvl v = Inr out
     \<Longrightarrow> sublist ([CHR 0x22] @ isoformat T @ [CHR 0x22]) out"
  "contains_datetime_list T xs \<Longrightarrow> iterencode_list lvl xs = Inr chunks
     \<Longrightarrow> \<exists>c \<in> set chunks. sublist ([CHR 0x22] @ isoformat T @ [CHR 0x22]) c"
  "contains_datetime_dict T d \<Longrightarrow> iterencode_dict lvl d = Inr chunks
     \<Longrightarrow> \<exists>c \<in> set chunks. sublist ([CHR 0x22] @ isoformat T @ [CHR 0x22]) c"
proof (induction lvl v and lvl xs and lvl d arbitrary: out and chunks and chunks
    rule: iterencode_iterencode_list_iterencode_dict.induct)
  case (5 lvl xs)
  from "5.prems" have ne: "xs \<noteq> []" by auto
  with "5.prems" obtain chunks where ch: "iterencode_list (lvl + 1) xs = Inr chunks"
    and out: "out = ''['' @ newline_indent (lvl + 1)
                    @ join ('','' @ newline_indent (lvl + 1)) chunks
                    @ newline_indent lvl @ '']''"
    by (auto split: sum.splits)
  from "5.IH" [OF ne _ ch] "5.prems" obtain c
    where "c \<in> set chunks" "sublist ([CHR 0x22] @ isoformat T @ [CHR 0x22]) c"
    by auto
  then show ?case
    unfolding out by (rule sublist_in_container)
next
  case (6 lvl d)
  from "6.prems" have ne: "d \<noteq> []" by auto
  with "6.prems" obtain chunks where ch: "iterencode_dict (lvl + 1) d = Inr chunks"
    and out: "out = ''{'' @ newline_indent (lvl + 1)
                    @ join ('','' @ newline_indent (lvl + 1)) chunks
                    @ newline_indent lvl @ ''}''"
    by (auto split: sum.splits)
  from "6.IH" [OF ne _ ch] "6.prems" obtain c
    where "c \<in> set chunks" "sublist ([CHR 0x22] @ isoformat T @ [CHR 0x22]) c"
    by auto
  then show ?case
    unfolding out by (rule sublist_in_container)
next
  case (9 lvl x xs)
  from "9.prems" obtain chunk rest where x: "iterencode lvl x = Inr chunk"
    and r: "iterencode_list lvl xs = Inr rest" and ch: "chunks = chunk # rest"
    by (auto split: sum.splits)
  from "9.prems"(1) have "contains_datetime T x \<or> contains_datetime_list T xs"
    by simp
  then show ?case
  proof
    assume "contains_datetime T x"
    with "9.IH"(1) x ch show ?thesis by auto
  next
    assume "contains_datetime_list T xs"
    with "9.IH"(2) x r ch show ?thesis by auto
  qed
next
  case (11 lvl k v kvs)
  from "11.prems" obtain chunk rest where v: "iterencode lvl v = Inr chunk"
    and r: "iterencode_dict lvl kvs = Inr rest"
    and ch: "chunks = (encode_basestring_ascii k @ '': '' @ chunk) # rest"
    by (auto split: sum.splits)
  from "11.prems"(1) have "contains_datetime T v \<or> contains_datetime_dict T kvs"
    by simp
  then show ?case
  proof
    assume "contains_datetime T v"
    with "11.IH"(1) v have "sublist ([CHR 0x22] @ isoformat T @ [CHR 0x22]) chunk"
      by auto
    then have "sublist ([CHR 0x22] @ isoformat T @ [CHR 0x22])
                 ((encode_basestring_ascii k @ '': '') @ chunk @ [])"
      by (rule sublist_inside)
    with ch show ?thesis by auto
  next
    assume "contains_datetime_dict T kvs"
    with "11.IH"(2) v r ch show ?thesis by auto
  qed
qed (simp_all add: encode_isoformat)

lemma timestamps_as_text_empty:
  "timestamps_as_text_list xs = [] \<longleftrightarrow> xs = []"
  "timestamps_as_text_dict d = [] \<longleftrightarrow> d = []"
  by (cases xs, simp_all) (cases d, auto)

lemma iterencode_timestamps_as_text:
  "iterencode lvl (timestamps_as_text v) = iterencode lvl v"
  "iterencode_list lvl (timestamps_as_text_list xs) = iterencode_list lvl xs"
  "iterencode_dict lvl (timestamps_as_text_dict d) = iterencode_dict lvl d"
  by (induction lvl v and lvl xs and lvl d
      rule: iterencode_iterencode_list_iterencode_dict.induct)
     (auto simp: timestamps_as_text_empty split: sum.splits)

lemma serializable_encodes:
  "serializable v \<Longrightarrow> \<exists>out. iterencode lvl v = Inr out"
  "serializable_list xs \<Longrightarrow> \<exists>chunks. iterencode_list lvl xs = Inr chunks"
  "serializable_dict d \<Longrightarrow> \<exists>chunks. iterencode_dict lvl d = Inr chunks"
  by (induction lvl v and lvl xs and lvl d
      rule: iterencode_iterencode_list_iterencode_dict.induct) auto

lemma encodes_serializable:
  "iterencode lvl v = Inr out \<Longrightarrow> serializable v"
  "iterencode_list lvl xs = Inr chunks \<Longrightarrow> serializable_list xs"
  "iterencode_dict lvl d = Inr chunks \<Longrightarrow> serializable_dict d"
  by (induction lvl v and lvl xs and lvl d arbitrary: out and chunks and chunks
      rule: iterencode_iterencode_list_iterencode_dict.induct)
     (auto split: sum.splits if_splits)

text \<open>The formatter raises exactly on the records that are not serialisable.\<close>

lemma format_raises_iff:
  "(\<exists>e. format_model_config d = Inl e) \<longleftrightarrow> \<not> serializable (PyDict d)"
proof
  assume "\<exists>e. format_model_config d = Inl e"
  then show "\<not> serializable (PyDict d)"
    using serializable_encodes(1) [of "PyDict d" 0]
    by (auto simp: format_model_config_def)
next
  assume "\<not> serializable (PyDict d)"
  then show "\<exists>e. format_model_config d = Inl e"
    using encodes_serializable(1) [of 0 "PyDict d"]
    by (cases "format_model_config d") (auto simp: format_model_config_def)
qed

section \<open>Outcomes of a submission\<close>

text \<open>
  Claim C2. When the selected identifier passes the check for the word \<^verbatim>\<open>Error\<close> and
  \<^verbatim>\<open>get_model_config\<close> returns no dictionary, the handler writes the error string naming
  the identifier to the configuration and to the system prompt, shows exactly one
  notification, leaves the confirmation naming the identifier in the label, and returns.
\<close>

theorem fetch_failure_outcome:
  assumes "\<not> py_in ''Error'' selected_model"
    and "fst (fst (get_model_config ollama_show selected_model)) = None"
  shows "model_config (session_after (submit_model ollama_show selected_model s))
           = PyStr (''Error getting config for '' @ selected_model)
       \<and> system_prompt (session_after (submit_model ollama_show selected_model s))
           = PyStr (''Error getting config for '' @ selected_model)
       \<and> length (notifications (effects_of (submit_model ollama_show selected_model s))) = 1
       \<and> model_to_display (session_after (submit_model ollama_show selected_model s))
           = PyStr (''You submitted model: '' @ selected_model)
       \<and> raised (submit_model ollama_show selected_model s) = None"
  using assms
  by (auto simp: submit_model_def get_model_config_def session_after_def effects_of_def
      raised_def notifications_def config_error_def submitted_label_def split: sum.splits)

theorem fetch_failure_outcome_witness:
  "\<not> py_in ''Error'' ''llama3''
   \<and> fst (fst (get_model_config daemon_down ''llama3'')) = None
   \<and> model_config (session_after (submit_model daemon_down ''llama3'' initial))
       = PyStr ''Error getting config for llama3''
   \<and> system_prompt (session_after (submit_model daemon_down ''llama3'' initial))
       = PyStr ''Error getting config for llama3''
   \<and> length (notifications (effects_of (submit_model daemon_down ''llama3'' initial))) = 1
   \<and> model_to_display (session_after (submit_model daemon_down ''llama3'' initial))
       = PyStr ''You submitted model: llama3''"
proof -
  have a: "\<not> py_in ''Error'' ''llama3''"
    by simp
  have b: "fst (fst (get_model_config daemon_down ''llama3'')) = None"
    by (simp add: get_model_config_def daemon_down_def)
  show ?thesis
    using a b fetch_failure_outcome [OF a b, of initial] by simp
qed

text \<open>
  Claim C3. When listing the models failed, the only option of the selection control is
  the sentinel; a submission with it selected calls \<^verbatim>\<open>ollama.show\<close> not at all, writes the
  connectivity error to all three fields and shows exactly one notification.
\<close>

theorem sentinel_submission:
  assumes "list_models reply = Inl e"
    and "PyStr selected_model \<in> set (fst (get_available_models reply))"
  shows "selected_model = sentinel
       \<and> fetches (effects_of (submit_model ollama_show selected_model s)) = []
       \<and> session_after (submit_model ollama_show selected_model s)
           = \<lparr>model_to_display = PyStr ''Error: Could not connect to Ollama.'',
              model_config = PyStr ''Error: Could not connect to Ollama.'',
              system_prompt = PyStr ''Error: Could not connect to Ollama.''\<rparr>
       \<and> length (notifications (effects_of (submit_model ollama_show selected_model s))) = 1"
proof -
  from assms have sel: "selected_model = sentinel"
    by (simp add: get_available_models_def)
  have "py_in ''Error'' sentinel"
    by (simp add: sentinel_def)
  with sel show ?thesis
    by (simp add: submit_model_def session_after_def effects_of_def fetches_def
        notifications_def connect_error_def)
qed

theorem sentinel_submission_witness:
  "list_models (Inl (ClientError ''connection refused'')) = Inl (ClientError ''connection refused'')
   \<and> PyStr sentinel \<in> set (fst (get_available_models (Inl (ClientError ''connection refused''))))
   \<and> fetches (effects_of (submit_model four_models sentinel initial)) = []
   \<and> session_after (submit_model four_models sentinel initial)
       = \<lparr>model_to_display = PyStr ''Error: Could not connect to Ollama.'',
          model_config = PyStr ''Error: Could not connect to Ollama.'',
          system_prompt = PyStr ''Error: Could not connect to Ollama.''\<rparr>
   \<and> length (notifications (effects_of (submit_model four_models sentinel initial))) = 1"
proof -
  have a: "list_models (Inl (ClientError ''connection refused'')) = Inl (ClientError ''connection refused'')"
    by (simp add: list_models_def)
  have b: "PyStr sentinel \<in> set (fst (get_available_models (Inl (ClientError ''connection refused''))))"
    by (simp add: get_available_models_def list_models_def)
  show ?thesis
    using a b sentinel_submission [OF a b, of four_models initial] by simp
qed

text \<open>
  Claim C9. Whenever the word \<^verbatim>\<open>Error\<close> occurs anywhere in the selected identifier, the
  handler takes the connectivity-error path: no call of \<^verbatim>\<open>ollama.show\<close>, the connectivity
  error in all three fields and one notification, whatever the daemon would have answered
  for that identifier.
\<close>

theorem error_in_name_is_connectivity_error:
  assumes "py_in ''Error'' selected_model"
  shows "fetches (effects_of (submit_model ollama_show selected_model s)) = []
       \<and> session_after (submit_model ollama_show selected_model s)
           = \<lparr>model_to_display = PyStr ''Error: Could not connect to Ollama.'',
              model_config = PyStr ''Error: Could not connect to Ollama.'',
              system_prompt = PyStr ''Error: Could not connect to Ollama.''\<rparr>
       \<and> effects_of (submit_model ollama_show selected_model s)
           = [NotificationShow ''Ollama is not running or is not accessible'' ''error'']"
  using assms
  by (simp add: submit_model_def session_after_def effects_of_def fetches_def connect_error_def)

theorem error_in_name_is_connectivity_error_witness:
  "py_in ''Error'' ''ErrorFixer''
   \<and> four_models ''ErrorFixer'' = Inr [(''system'', PyStr ''Fix errors.'')]
   \<and> fetches (effects_of (submit_model four_models ''ErrorFixer'' initial)) = []
   \<and> session_after (submit_model four_models ''ErrorFixer'' initial)
       = \<lparr>model_to_display = PyStr ''Error: Could not connect to Ollama.'',
          model_config = PyStr ''Error: Could not connect to Ollama.'',
          system_prompt = PyStr ''Error: Could not connect to Ollama.''\<rparr>"
proof -
  have a: "py_in ''Error'' ''ErrorFixer''"
    by simp
  have b: "four_models ''ErrorFixer'' = Inr [(''system'', PyStr ''Fix errors.'')]"
    by (simp add: four_models_def)
  show ?thesis
    using a b error_in_name_is_connectivity_error [OF a, of four_models initial]
    by (simp add: fetches_def)
qed

text \<open>
  Claim C10. When the configuration was fetched and formatting it raises, the handler
  ends with that exception: the label holds the new confirmation, the configuration and
  the system prompt are what they were before the submission, and nothing is notified.
\<close>

theorem formatting_failure_outcome:
  assumes "\<not> py_in ''Error'' selected_model"
    and "ollama_show selected_model = Inr d"
    and "format_model_config d = Inl e"
  shows "raised (submit_model ollama_show selected_model s) = Some e
       \<and> model_to_display (session_after (submit_model ollama_show selected_model s))
           = PyStr (''You submitted model: '' @ selected_model)
       \<and> model_config (session_after (submit_model ollama_show selected_model s))
           = model_config s
       \<and> system_prompt (session_after (submit_model ollama_show selected_model s))
           = system_prompt s
       \<and> notifications (effects_of (submit_model ollama_show selected_model s)) = []"
  using assms
  by (simp add: submit_model_def get_model_config_def session_after_def effects_of_def
      raised_def notifications_def submitted_label_def)

theorem formatting_failure_outcome_witness:
  "\<not> py_in ''Error'' ''mistral''
   \<and> four_models ''mistral''
       = Inr [(''system'', PyStr ''Be brief.''), (''adapter'', PyObject ''PosixPath'')]
   \<and> format_model_config [(''system'', PyStr ''Be brief.''), (''adapter'', PyObject ''PosixPath'')]
       = Inl (TypeError ''Object of type PosixPath is not JSON serializable'')
   \<and> raised (submit_model four_models ''mistral'' initial)
       = Some (TypeError ''Object of type PosixPath is not JSON serializable'')
   \<and> model_to_display (session_after (submit_model four_models ''mistral'' initial))
       = PyStr ''You submitted model: mistral''
   \<and> model_config (session_after (submit_model four_models ''mistral'' initial))
       = PyStr ''Model config will be shown here after submission.''
   \<and> system_prompt (session_after (submit_model four_models ''mistral'' initial))
       = PyStr ''No system prompt configured''"
proof -
  have a: "\<not> py_in ''Error'' ''mistral''"
    by simp
  have b: "four_models ''mistral''
             = Inr [(''system'', PyStr ''Be brief.''), (''adapter'', PyObject ''PosixPath'')]"
    by (simp add: four_models_def)
  have c: "format_model_config [(''system'', PyStr ''Be brief.''), (''adapter'', PyObject ''PosixPath'')]
             = Inl (TypeError ''Object of type PosixPath is not JSON serializable'')"
    by (simp add: format_model_config_def)
  show ?thesis
    using a b c
      formatting_failure_outcome
        [where selected_model = "''mistral''" and ollama_show = four_models and s = initial,
         OF a b c]
    by (simp add: initial_def)
qed

text \<open>
  Claim C1, as amended. A submission whose handler returns has written all three fields,
  to values that depend on this submission only: the connectivity error in all three when
  the identifier contains \<^verbatim>\<open>Error\<close>; the confirmation in the label and the per-model error
  in the other two when the fetch failed; the confirmation, the formatted configuration
  and the system prompt (or its placeholder) when it succeeded.
\<close>

theorem completed_submission_writes_all_fields:
  assumes "raised (submit_model ollama_show selected_model s) = None"
  shows "(py_in ''Error'' selected_model
          \<and> session_after (submit_model ollama_show selected_model s)
              = \<lparr>model_to_display = PyStr ''Error: Could not connect to Ollama.'',
                 model_config = PyStr ''Error: Could not connect to Ollama.'',
                 system_prompt = PyStr ''Error: Could not connect to Ollama.''\<rparr>)
       \<or> (fst (fst (get_model_config ollama_show selected_model)) = None
          \<and> session_after (submit_model ollama_show selected_model s)
              = \<lparr>model_to_display = PyStr (''You submitted model: '' @ selected_model),
                 model_config = PyStr (''Error getting config for '' @ selected_model),
                 system_prompt = PyStr (''Error getting config for '' @ selected_model)\<rparr>)
       \<or> (\<exists>d text. ollama_show selected_model = Inr d
          \<and> format_model_config d = Inr text
          \<and> session_after (submit_model ollama_show selected_model s)
              = \<lparr>model_to_display = PyStr (''You submitted model: '' @ selected_model),
                 model_config = PyStr text,
                 system_prompt =
                   (if truthy (dict_get d ''system'') then dict_get d ''system''
                    else PyStr ''No system prompt configured'')\<rparr>)"
proof (cases "py_in ''Error'' selected_model")
  case True
  then show ?thesis
    by (simp add: submit_model_def session_after_def connect_error_def)
next
  case noerr: False
  show ?thesis
  proof (cases "ollama_show selected_model")
    case (Inl e)
    with noerr show ?thesis
      by (simp add: submit_model_def get_model_config_def session_after_def
          config_error_def submitted_label_def)
  next
    case (Inr d)
    show ?thesis
    proof (cases "format_model_config d")
      case (Inl e)
      with noerr Inr assms show ?thesis
        by (simp add: submit_model_def get_model_config_def raised_def)
    next
      case fmt: (Inr out)
      with noerr Inr show ?thesis
        by (simp add: submit_model_def get_model_config_def session_after_def
            submitted_label_def)
    qed
  qed
qed

theorem completed_submission_writes_all_fields_witness:
  "raised (submit_model four_models ''llama3'' initial) = None
   \<and> session_after (submit_model four_models ''llama3'' initial)
       = \<lparr>model_to_display = PyStr ''You submitted model: llama3'',
          model_config =
            PyStr (''{'' @ [CHR 0x0A] @ ''  '' @ [CHR 0x22] @ ''system'' @ [CHR 0x22] @ '': ''
                   @ [CHR 0x22] @ ''You are helpful.'' @ [CHR 0x22] @ [CHR 0x0A] @ ''}''),
          system_prompt = PyStr ''You are helpful.''\<rparr>"
proof -
  have a: "raised (submit_model four_models ''llama3'' initial) = None"
    by (simp add: submit_model_def get_model_config_def four_models_def raised_def
        format_model_config_def)
  show ?thesis
    using a completed_submission_writes_all_fields [OF a]
    by (simp add: submit_model_def get_model_config_def four_models_def session_after_def
        format_model_config_def submitted_label_def dict_get_def initial_def
        encode_basestring_ascii_def escape_char_def newline_indent_def)
qed

text \<open>
  The claim as it was stated fails on two inputs. Where the fetch fails, the handler
  returns with the error string in two fields only, the label holding the confirmation it
  wrote before the fetch. Where the formatter raises, the label alone is written, and the
  other two fields keep what they held before the submission.
\<close>

theorem all_three_error_counterexample:
  "fst (fst (get_model_config daemon_down ''llama3'')) = None
   \<and> raised (submit_model daemon_down ''llama3'' initial) = None
   \<and> session_after (submit_model daemon_down ''llama3'' initial)
       = \<lparr>model_to_display = PyStr ''You submitted model: llama3'',
          model_config = PyStr ''Error getting config for llama3'',
          system_prompt = PyStr ''Error getting config for llama3''\<rparr>
   \<and> model_to_display (session_after (submit_model daemon_down ''llama3'' initial))
       \<noteq> model_config (session_after (submit_model daemon_down ''llama3'' initial))
   \<and> raised (submit_model four_models ''mistral'' initial)
       = Some (TypeError ''Object of type PosixPath is not JSON serializable'')
   \<and> session_after (submit_model four_models ''mistral'' initial)
       = \<lparr>model_to_display = PyStr ''You submitted model: mistral'',
          model_config = PyStr ''Model config will be shown here after submission.'',
          system_prompt = PyStr ''No system prompt configured''\<rparr>"
  by (simp add: submit_model_def get_model_config_def daemon_down_def four_models_def
      session_after_def raised_def submitted_label_def config_error_def initial_def
      format_model_config_def)

text \<open>
  Claim C4, as amended. When the fetch succeeded and the formatter returned, the system
  prompt field holds the entry \<^verbatim>\<open>system\<close> of the dictionary if that value is true in a
  condition (a string that is not empty), and the fixed placeholder otherwise.
\<close>

theorem system_prompt_after_fetch:
  assumes "\<not> py_in ''Error'' selected_model"
    and "get_model_config ollama_show selected_model = ((Some d, extracted_system_prompt), fx)"
    and "format_model_config d = Inr text"
  shows "extracted_system_prompt = dict_get d ''system''
       \<and> system_prompt (session_after (submit_model ollama_show selected_model s))
           = (if truthy extracted_system_prompt then extracted_system_prompt
              else PyStr ''No system prompt configured'')"
proof -
  from assms(2) obtain e where "ollama_show selected_model = Inr d"
    and "extracted_system_prompt = dict_get d ''system''"
    by (auto simp: get_model_config_def split: sum.splits)
  with assms show ?thesis
    by (simp add: submit_model_def session_after_def)
qed

theorem system_prompt_after_fetch_witness:
  "\<not> py_in ''Error'' ''llama3''
   \<and> get_model_config four_models ''llama3''
       = ((Some [(''system'', PyStr ''You are helpful.'')], PyStr ''You are helpful.''),
          [OllamaShow ''llama3''])
   \<and> system_prompt (session_after (submit_model four_models ''llama3'' initial))
       = PyStr ''You are helpful.''"
proof -
  have a: "\<not> py_in ''Error'' ''llama3''"
    by simp
  have b: "get_model_config four_models ''llama3''
       = ((Some [(''system'', PyStr ''You are helpful.'')], PyStr ''You are helpful.''),
          [OllamaShow ''llama3''])"
    by (simp add: get_model_config_def four_models_def dict_get_def)
  have c: "format_model_config [(''system'', PyStr ''You are helpful.'')]
       = Inr (''{'' @ newline_indent 1 @ encode_basestring_ascii ''system'' @ '': ''
              @ encode_basestring_ascii ''You are helpful.'' @ newline_indent 0 @ ''}'')"
    by (simp add: format_model_config_def)
  show ?thesis
    using a b system_prompt_after_fetch [OF a b c, of initial] by simp
qed

text \<open>
  The claim as it was stated fails on two inputs. On a configuration whose entry
  \<^verbatim>\<open>system\<close> is the empty string, the entry is there, and the field gets the placeholder,
  not the entry. On a configuration that the formatter rejects, the fetch succeeded with
  the system prompt \<^verbatim>\<open>Be brief.\<close>, and the field is not written at all.
\<close>

theorem empty_system_prompt_counterexample:
  "get_model_config four_models ''phi3''
       = ((Some [(''system'', PyStr [])], PyStr []), [OllamaShow ''phi3''])
   \<and> raised (submit_model four_models ''phi3'' initial) = None
   \<and> system_prompt (session_after (submit_model four_models ''phi3'' initial))
       = PyStr ''No system prompt configured''
   \<and> system_prompt (session_after (submit_model four_models ''phi3'' initial)) \<noteq> PyStr []
   \<and> get_model_config four_models ''mistral''
       = ((Some [(''system'', PyStr ''Be brief.''), (''adapter'', PyObject ''PosixPath'')],
           PyStr ''Be brief.''),
          [OllamaShow ''mistral''])
   \<and> system_prompt (session_after (submit_model four_models ''mistral'' initial))
       = PyStr ''No system prompt configured''"
  by (simp add: submit_model_def get_model_config_def four_models_def session_after_def
      raised_def format_model_config_def dict_get_def initial_def)

text \<open>
  Claim C8, as amended. When the handler of the second of two consecutive submissions
  returns, the session after both is the session the second one alone leaves: nothing of
  the first remains, whatever the first was and whatever the daemon answered to it.
\<close>

theorem second_submission_overwrites:
  assumes "raised (submit_model show_b b s) = None"
  shows "session_after (submit_model show_b b (session_after (submit_model show_a a s)))
       = session_after (submit_model show_b b s)"
proof (cases "py_in ''Error'' b")
  case True
  then show ?thesis
    by (simp add: submit_model_def session_after_def)
next
  case noerr: False
  show ?thesis
  proof (cases "show_b b")
    case (Inl e)
    with noerr show ?thesis
      by (simp add: submit_model_def get_model_config_def session_after_def)
  next
    case (Inr d)
    show ?thesis
    proof (cases "format_model_config d")
      case (Inl e)
      with noerr Inr assms show ?thesis
        by (simp add: submit_model_def get_model_config_def raised_def)
    next
      case fmt: (Inr out)
      with noerr Inr show ?thesis
        by (simp add: submit_model_def get_model_config_def session_after_def)
    qed
  qed
qed

theorem second_submission_overwrites_witness:
  "raised (submit_model four_models ''phi3'' initial) = None
   \<and> session_after (submit_model four_models ''phi3''
         (session_after (submit_model four_models ''llama3'' initial)))
       = session_after (submit_model four_models ''phi3'' initial)"
proof -
  have a: "raised (submit_model four_models ''phi3'' initial) = None"
    by (simp add: submit_model_def get_model_config_def four_models_def raised_def
        format_model_config_def)
  show ?thesis
    using a second_submission_overwrites [OF a, of four_models "''llama3''"] by simp
qed

text \<open>
  The claim as it was stated fails when formatting the second configuration raises: the
  configuration and the system prompt of the first submission stay in the session.
\<close>

theorem residue_counterexample:
  "four_models ''llama3'' = Inr [(''system'', PyStr ''You are helpful.'')]
   \<and> four_models ''mistral''
       = Inr [(''system'', PyStr ''Be brief.''), (''adapter'', PyObject ''PosixPath'')]
   \<and> system_prompt (session_after (submit_model four_models ''mistral''
         (session_after (submit_model four_models ''llama3'' initial))))
       = PyStr ''You are helpful.''
   \<and> system_prompt (session_after (submit_model four_models ''mistral'' initial))
       = PyStr ''No system prompt configured''"
  by (simp add: submit_model_def get_model_config_def four_models_def session_after_def
      format_model_config_def dict_get_def initial_def)

section \<open>The formatter\<close>



text \<open>
  Claim C6. When the formatter returns on a record in which the timestamp \<open>T\<close> occurs, the
  ISO text of \<open>T\<close>, in quotes, is part of the output, and the output is the one of the
  record whose timestamps are replaced by their ISO texts: a timestamp is rendered as the
  JSON string of its ISO text and as nothing else.
\<close>

theorem timestamp_rendered_as_iso:
  assumes "format_model_config R = Inr out"
    and "contains_datetime_dict T R"
  shows "py_in ([CHR 0x22] @ isoformat T @ [CHR 0x22]) out
       \<and> format_model_config (timestamps_as_text_dict R) = Inr out"
proof -
  from assms have "sublist ([CHR 0x22] @ isoformat T @ [CHR 0x22]) out"
    using timestamp_in_output(1) [of T "PyDict R" 0 out]
    by (simp add: format_model_config_def)
  moreover have "format_model_config (timestamps_as_text_dict R) = format_model_config R"
    using iterencode_timestamps_as_text(1) [of 0 "PyDict R"]
    by (simp add: format_model_config_def)
  ultimately show ?thesis
    using assms(1) by (simp add: py_in_iff_sublist)
qed

theorem timestamp_rendered_as_iso_witness:
  "isoformat example_time = ''2024-03-07T09:05:00.000123-05:30''
   \<and> contains_datetime_dict example_time [(''modified_at'', PyDatetime example_time)]
   \<and> format_model_config [(''modified_at'', PyDatetime example_time)]
       = Inr (''{'' @ [CHR 0x0A] @ ''  '' @ [CHR 0x22] @ ''modified_at'' @ [CHR 0x22] @ '': ''
              @ [CHR 0x22] @ ''2024-03-07T09:05:00.000123-05:30'' @ [CHR 0x22]
              @ [CHR 0x0A] @ ''}'')
   \<and> py_in ([CHR 0x22] @ ''2024-03-07T09:05:00.000123-05:30'' @ [CHR 0x22])
         (''{'' @ [CHR 0x0A] @ ''  '' @ [CHR 0x22] @ ''modified_at'' @ [CHR 0x22] @ '': ''
              @ [CHR 0x22] @ ''2024-03-07T09:05:00.000123-05:30'' @ [CHR 0x22]
              @ [CHR 0x0A] @ ''}'')"
proof -
  have iso: "isoformat example_time = ''2024-03-07T09:05:00.000123-05:30''"
    by (simp add: isoformat_def format_time_def format_offset_def zpad_def str_nat.simps
        digit_char_def example_time_def Let_def replicate_three)
  have a: "format_model_config [(''modified_at'', PyDatetime example_time)]
       = Inr (''{'' @ [CHR 0x0A] @ ''  '' @ [CHR 0x22] @ ''modified_at'' @ [CHR 0x22] @ '': ''
              @ [CHR 0x22] @ ''2024-03-07T09:05:00.000123-05:30'' @ [CHR 0x22]
              @ [CHR 0x0A] @ ''}'')"
    by (simp add: format_model_config_def iso encode_basestring_ascii_def escape_char_def
        newline_indent_def)
  have b: "contains_datetime_dict example_time [(''modified_at'', PyDatetime example_time)]"
    by simp
  show ?thesis
    using iso a b timestamp_rendered_as_iso [OF a b] by simp
qed

section \<open>Listing the models\<close>

text \<open>
  Claim C7. When the listing fails, by an exception of the client or by a descriptor
  without a name, \<^verbatim>\<open>get_available_models\<close> returns all the same: a list of one element,
  the sentinel, which begins with \<^verbatim>\<open>Error\<close>.
\<close>

theorem listing_failure_gives_sentinel:
  assumes "list_models reply = Inl e"
  shows "fst (get_available_models reply) = [PyStr sentinel]
       \<and> length (fst (get_available_models reply)) = 1
       \<and> prefix ''Error'' sentinel"
  using assms by (simp add: get_available_models_def sentinel_def)

theorem listing_failure_gives_sentinel_witness:
  "list_models (Inr (Some [[(''model'', PyStr ''llama3'')], [(''name'', PyStr ''phi3'')]]))
       = Inl (KeyError ''model'')
   \<and> fst (get_available_models (Inr (Some [[(''model'', PyStr ''llama3'')], [(''name'', PyStr ''phi3'')]])))
       = [PyStr ''Error: Could not connect to Ollama. Is it running?'']"
proof -
  have a: "list_models (Inr (Some [[(''model'', PyStr ''llama3'')], [(''name'', PyStr ''phi3'')]]))
       = Inl (KeyError ''model'')"
    by (simp add: list_models_def dict_getitem_def)
  show ?thesis
    using a listing_failure_gives_sentinel [OF a] by (simp add: sentinel_def)
qed

end
